theory Spec2Isabelle
  imports Complex_Main "HOL-Library.Word" "HOL-Library.Sublist"
begin

section \<open>Python values and control effects\<close>

text \<open>
  The program is \<^verbatim>\<open>main.py\<close>: a Kivy widget with a press-and-hold record button, a
  recorder thread that writes a WAV file, and a wrapper around the SarvamAI client.
  The GUI toolkit, the Android audio binding, \<^verbatim>\<open>sounddevice\<close>, \<^verbatim>\<open>wave\<close> and the
  SarvamAI client are external collaborators. Each call into one of them is recorded in a
  trace, and what the collaborator answers (a value or an exception) is a field of an
  environment record, so every theorem below holds for whatever the collaborators answer.
  An external call is assumed to return or to raise; it never blocks forever.

  A value of type \<open>exn\<close> is an instance of Python's \<^verbatim>\<open>Exception\<close>, the class every
  handler of the program names; it carries what \<^verbatim>\<open>str(e)\<close> and \<^verbatim>\<open>repr(e)\<close> give. The
  audio bindings and the file system raise such instances only. The \<^verbatim>\<open>sarvamai\<close> package
  is arbitrary third-party code, so what it raises is a value of type \<open>thrown\<close>: an
  instance of \<^verbatim>\<open>Exception\<close>, or an instance of \<^verbatim>\<open>BaseException\<close> outside
  \<^verbatim>\<open>Exception\<close> (\<^verbatim>\<open>KeyboardInterrupt\<close>, \<^verbatim>\<open>SystemExit\<close>, \<^verbatim>\<open>GeneratorExit\<close>), which an
  \<^verbatim>\<open>except Exception\<close> handler does not catch; \<open>NotException\<close> carries its \<^verbatim>\<open>repr\<close>.
\<close>

type_synonym byte = "8 word"
type_synonym short = "16 word"

datatype exn = Exn (exn_str: string) (exn_repr: string)

datatype thrown = Exception exn | NotException string

text \<open>An exception of class \<open>cls\<close> raised with the single argument \<open>msg\<close>.\<close>

definition raised :: "string \<Rightarrow> string \<Rightarrow> exn" where
  "raised cls msg = Exn msg (cls @ ''('' @ [CHR 0x27] @ msg @ [CHR 0x27] @ '')'')"

text \<open>
  A computation yields the trace of the external calls it made and either what it raised
  (\<open>Inl\<close>) or its value (\<open>Inr\<close>).
\<close>

type_synonym ('e, 't, 'a) io = "'t list \<times> ('e + 'a)"

definition ret :: "'a \<Rightarrow> ('e, 't, 'a) io" where
  "ret a = ([], Inr a)"

definition call :: "'t \<Rightarrow> 'e + 'a \<Rightarrow> ('e, 't, 'a) io" where
  "call ev answer = ([ev], answer)"

definition local_step :: "'e + 'a \<Rightarrow> ('e, 't, 'a) io" where
  "local_step answer = ([], answer)"

definition then_io :: "('e, 't, 'a) io \<Rightarrow> ('a \<Rightarrow> ('e, 't, 'b) io) \<Rightarrow> ('e, 't, 'b) io" where
  "then_io m f =
     (case m of
        (tr, Inl e) \<Rightarrow> (tr, Inl e)
      | (tr, Inr a) \<Rightarrow> (case f a of (tr', r) \<Rightarrow> (tr @ tr', r)))"

text \<open>
  \<^verbatim>\<open>try: ... except Exception: ...\<close> around code that raises instances of
  \<^verbatim>\<open>Exception\<close> only: the handler takes whatever is raised.
\<close>

definition try_except ::
  "(exn, 't, 'a) io \<Rightarrow> (exn \<Rightarrow> (exn, 't, 'a) io) \<Rightarrow> (exn, 't, 'a) io" where
  "try_except m handler =
     (case m of
        (tr, Inl e) \<Rightarrow> (case handler e of (tr', r) \<Rightarrow> (tr @ tr', r))
      | (tr, Inr a) \<Rightarrow> (tr, Inr a))"

text \<open>
  \<^verbatim>\<open>try: ... except Exception as e: ...\<close> around code that may raise anything: the
  handler takes an instance of \<^verbatim>\<open>Exception\<close>; anything else propagates.
\<close>

definition except_Exception ::
  "(thrown, 't, 'a) io \<Rightarrow> (exn \<Rightarrow> (thrown, 't, 'a) io) \<Rightarrow> (thrown, 't, 'a) io" where
  "except_Exception m handler =
     (case m of
        (tr, Inl (Exception e)) \<Rightarrow> (case handler e of (tr', r) \<Rightarrow> (tr @ tr', r))
      | (tr, Inl (NotException e)) \<Rightarrow> (tr, Inl (NotException e))
      | (tr, Inr a) \<Rightarrow> (tr, Inr a))"

text \<open>An answer of the file system, seen from code that may raise anything.\<close>

definition of_exception :: "exn + 'a \<Rightarrow> thrown + 'a" where
  "of_exception answer = (case answer of Inl e \<Rightarrow> Inl (Exception e) | Inr a \<Rightarrow> Inr a)"

subsection \<open>Strings\<close>

text \<open>
  Strings are lists of characters. \<^verbatim>\<open>str.lower\<close> and \<^verbatim>\<open>str.strip\<close> are modelled on ASCII:
  no character outside ASCII lowers to one of the letters of \<^verbatim>\<open>.txt\<close> or \<^verbatim>\<open>.json\<close>, and
  the whitespace stripped is Python's ASCII whitespace.
\<close>

definition newline :: char where
  "newline = CHR 0x0A"

definition lower_char :: "char \<Rightarrow> char" where
  "lower_char c =
     (if (65::nat) \<le> of_char c \<and> of_char c \<le> (90::nat) then char_of (of_char c + (32::nat)) else c)"

definition py_lower :: "string \<Rightarrow> string" where
  "py_lower s = map lower_char s"

definition endswith :: "string \<Rightarrow> string \<Rightarrow> bool" where
  "endswith s suf = (length suf \<le> length s \<and> drop (length s - length suf) s = suf)"

definition is_space :: "char \<Rightarrow> bool" where
  "is_space c = (of_char c \<in> {9, 10, 11, 12, 13, 28, 29, 30, 31, 32 :: nat})"

definition py_strip :: "string \<Rightarrow> string" where
  "py_strip s = rev (dropWhile is_space (rev (dropWhile is_space s)))"

fun py_join :: "string \<Rightarrow> string list \<Rightarrow> string" where
  "py_join sep [] = []"
| "py_join sep [x] = x"
| "py_join sep (x # y # ys) = x @ sep @ py_join sep (y # ys)"

text \<open>\<^verbatim>\<open>os.path.join(a, b)\<close> with two components, on a POSIX file system.\<close>

definition os_path_join :: "string \<Rightarrow> string \<Rightarrow> string" where
  "os_path_join a b =
     (if b \<noteq> [] \<and> hd b = CHR ''/'' then b
      else if a = [] \<or> last a = CHR ''/'' then a @ b
      else a @ ''/'' @ b)"

subsection \<open>JSON documents\<close>

datatype json =
    JNull
  | JBool bool
  | JNum int
  | JStr string
  | JArr "json list"
  | JObj "(string \<times> json) list"

definition TypeError :: exn where
  "TypeError = raised ''TypeError'' ''unsupported operand''"

definition KeyError :: exn where
  "KeyError = raised ''KeyError'' ''key''"

text \<open>
  \<^verbatim>\<open>k in j\<close>: key membership on a dict, element membership on a list, substring test on a
  string, \<^verbatim>\<open>TypeError\<close> on a number, a boolean or \<^verbatim>\<open>None\<close>.
\<close>

fun json_contains :: "string \<Rightarrow> json \<Rightarrow> exn + bool" where
  "json_contains k (JObj kvs) = Inr (k \<in> set (map fst kvs))"
| "json_contains k (JArr xs) = Inr (JStr k \<in> set xs)"
| "json_contains k (JStr s) = Inr (sublist k s)"
| "json_contains k JNull = Inl TypeError"
| "json_contains k (JBool b) = Inl TypeError"
| "json_contains k (JNum n) = Inl TypeError"

text \<open>\<^verbatim>\<open>j[k]\<close> with a string key: a lookup on a dict, \<^verbatim>\<open>TypeError\<close> on anything else.\<close>

fun json_getitem :: "json \<Rightarrow> string \<Rightarrow> exn + json" where
  "json_getitem (JObj kvs) k = (case map_of kvs k of Some v \<Rightarrow> Inr v | None \<Rightarrow> Inl KeyError)"
| "json_getitem (JArr xs) k = Inl TypeError"
| "json_getitem (JStr s) k = Inl TypeError"
| "json_getitem JNull k = Inl TypeError"
| "json_getitem (JBool b) k = Inl TypeError"
| "json_getitem (JNum n) k = Inl TypeError"

section \<open>The SarvamAI wrapper\<close>

text \<open>
  The calls \<^verbatim>\<open>translate_audio_with_sarvamai\<close> makes into the \<^verbatim>\<open>sarvamai\<close> package, with
  their arguments. The import is the first of them.
\<close>

datatype sarvam_call =
    ImportSarvamAI
  | NewClient string
  | CreateJob string bool nat string
  | UploadFiles "string list"
  | Start
  | WaitUntilComplete
  | IsFailed
  | DownloadOutputs string

text \<open>
  A file that \<^verbatim>\<open>os.walk\<close> lists: its name, what opening it as UTF-8 text and reading it
  gives, and what \<^verbatim>\<open>json.load\<close> gives on it.
\<close>

record out_file =
  fname :: string
  read_text :: "exn + string"
  load_json :: "exn + json"

text \<open>
  What the environment answers to the wrapper: the import and the calls on the client
  and the job answer with anything the package may raise, the file system with instances
  of \<^verbatim>\<open>Exception\<close>.
\<close>

record sarvam_env =
  import_r :: "thrown + unit"
  client_r :: "thrown + unit"
  create_job_r :: "thrown + unit"
  upload_files_r :: "thrown + unit"
  start_r :: "thrown + unit"
  wait_until_complete_r :: "thrown + unit"
  is_failed_r :: "thrown + bool"
  getcwd_r :: "exn + string"
  makedirs_r :: "exn + unit"
  download_outputs_r :: "thrown + unit"
  walk_r :: "(string \<times> out_file list) list"

definition json_keys :: "string list" where
  "json_keys = [''text'', ''transcript'', ''translation'', ''translated_text'']"

text \<open>
  One round of the loop over the keys: what it appends to \<^verbatim>\<open>aggregated\<close>, or the
  exception it raises.
\<close>

definition json_key_step :: "string \<Rightarrow> json \<Rightarrow> string \<Rightarrow> exn + string list" where
  "json_key_step name j k =
     (case json_contains k j of
        Inl e \<Rightarrow> Inl e
      | Inr False \<Rightarrow> Inr []
      | Inr True \<Rightarrow>
          (case json_getitem j k of
             Inl e \<Rightarrow> Inl e
           | Inr (JStr s) \<Rightarrow>
               (if py_strip s \<noteq> []
                then Inr [''--- '' @ name @ '':'' @ k @ '' ---'' @ [newline] @ py_strip s]
                else Inr [])
           | Inr _ \<Rightarrow> Inr []))"

text \<open>
  The loop over the keys appends to the list shared with the caller, so what it appended
  before an exception stays.
\<close>

fun json_key_loop :: "string \<Rightarrow> json \<Rightarrow> string list \<Rightarrow> string list \<Rightarrow> string list \<times> (exn + unit)" where
  "json_key_loop name j [] aggregated = (aggregated, Inr ())"
| "json_key_loop name j (k # ks) aggregated =
     (case json_key_step name j k of
        Inl e \<Rightarrow> (aggregated, Inl e)
      | Inr new \<Rightarrow> json_key_loop name j ks (aggregated @ new))"

text \<open>
  The body of the loop over the files. A \<^verbatim>\<open>.txt\<close> file that cannot be read raises; the
  \<^verbatim>\<open>.json\<close> branch swallows every exception.
\<close>

definition process_file :: "out_file \<Rightarrow> string list \<Rightarrow> exn + string list" where
  "process_file f aggregated =
     (if endswith (py_lower (fname f)) ''.txt'' then
        (case read_text f of
           Inl e \<Rightarrow> Inl e
         | Inr content \<Rightarrow>
             (let txt = py_strip content
              in if txt \<noteq> []
                 then Inr (aggregated @ [''--- '' @ fname f @ '' ---'' @ [newline] @ txt])
                 else Inr aggregated))
      else if endswith (py_lower (fname f)) ''.json'' then
        (case load_json f of
           Inl e \<Rightarrow> Inr aggregated
         | Inr j \<Rightarrow> Inr (fst (json_key_loop (fname f) j json_keys aggregated)))
      else Inr aggregated)"

fun process_files :: "out_file list \<Rightarrow> string list \<Rightarrow> exn + string list" where
  "process_files [] aggregated = Inr aggregated"
| "process_files (f # fs) aggregated =
     (case process_file f aggregated of
        Inl e \<Rightarrow> Inl e
      | Inr aggregated' \<Rightarrow> process_files fs aggregated')"

fun walk_loop :: "(string \<times> out_file list) list \<Rightarrow> string list \<Rightarrow> exn + string list" where
  "walk_loop [] aggregated = Inr aggregated"
| "walk_loop ((dirpath, files) # rest) aggregated =
     (case process_files files aggregated of
        Inl e \<Rightarrow> Inl e
      | Inr aggregated' \<Rightarrow> walk_loop rest aggregated')"

text \<open>The calls on the client and the job up to the failure check, in the order of the source.\<close>

definition job_calls :: "string \<Rightarrow> string \<Rightarrow> string \<Rightarrow> string \<Rightarrow> sarvam_call list" where
  "job_calls path key model prompt =
     [NewClient key, CreateJob model False 1 prompt, UploadFiles [path], Start,
      WaitUntilComplete, IsFailed]"


text \<open>The second \<^verbatim>\<open>try\<close> block of the wrapper.\<close>

definition sarvam_flow ::
  "sarvam_env \<Rightarrow> string \<Rightarrow> string \<Rightarrow> string \<Rightarrow> string
     \<Rightarrow> (thrown, sarvam_call, bool \<times> string) io" where
  "sarvam_flow env path key model prompt =
     then_io (call (NewClient key) (client_r env)) (\<lambda>_.
     then_io (call (CreateJob model False 1 prompt) (create_job_r env)) (\<lambda>_.
     then_io (call (UploadFiles [path]) (upload_files_r env)) (\<lambda>_.
     then_io (call Start (start_r env)) (\<lambda>_.
     then_io (call WaitUntilComplete (wait_until_complete_r env)) (\<lambda>_.
     then_io (call IsFailed (is_failed_r env)) (\<lambda>failed.
       if failed then ret (False, ''STT job failed.'')
       else
         then_io (local_step (of_exception (getcwd_r env))) (\<lambda>cwd.
         let output_dir = os_path_join cwd ''sarvamai_output'' in
         then_io (local_step (of_exception (makedirs_r env))) (\<lambda>_.
         then_io (call (DownloadOutputs output_dir) (download_outputs_r env)) (\<lambda>_.
         then_io (local_step (of_exception (walk_loop (walk_r env) []))) (\<lambda>aggregated.
           if aggregated \<noteq> []
           then ret (True, py_join [newline, newline] aggregated)
           else ret (True, ''Output downloaded to: '' @ output_dir
                       @ '' (no text/json translation found).'')))))))))))"

text \<open>
  The wrapper: the import under its own \<^verbatim>\<open>except Exception\<close> handler, which returns
  early, then the flow under the second.
\<close>

definition translate_audio_with_sarvamai ::
  "sarvam_env \<Rightarrow> string \<Rightarrow> string \<Rightarrow> string \<Rightarrow> string
     \<Rightarrow> (thrown, sarvam_call, bool \<times> string) io" where
  "translate_audio_with_sarvamai env path key model prompt =
     then_io
       (except_Exception
          (then_io (call ImportSarvamAI (import_r env)) (\<lambda>_. ret None))
          (\<lambda>e. ret (Some (False, ''sarvamai lib not available on runtime: '' @ exn_str e))))
       (\<lambda>early.
          case early of
            Some r \<Rightarrow> ret r
          | None \<Rightarrow>
              except_Exception (sarvam_flow env path key model prompt)
                (\<lambda>e. ret (False, ''Translation error: '' @ exn_repr e)))"

section \<open>The widget\<close>

text \<open>
  The state of the application: the attributes of the \<^verbatim>\<open>RootWidget\<close> (\<open>self_\<close>), the
  properties of the widgets under \<^verbatim>\<open>self.ids\<close> (\<open>ids_\<close>), the threads started so far, and
  the WAV content of the file at \<^verbatim>\<open>self.wav_path\<close> (\<open>None\<close> while nothing has been
  written through \<^verbatim>\<open>wave\<close>). \<^verbatim>\<open>collide_point\<close> is Kivy's hit test of the record button.
\<close>

datatype thread_target = Record_worker | Post_process_and_translate

record wave_write =
  w_nchannels :: nat
  w_sampwidth :: nat
  w_framerate :: nat
  w_frames :: "byte list"
  w_closed :: bool

record app =
  self_audio_thread :: "thread_target option"
  self_recording :: bool
  self_wav_path :: "string option"
  self_buffer_size :: int
  ids_record_btn_text :: string
  ids_record_btn_collide_point :: "real \<times> real \<Rightarrow> bool"
  ids_output_box_text :: string
  ids_api_key_text :: string
  started_threads :: "thread_target list"
  wav_file :: "wave_write option"

record touch =
  pos :: "real \<times> real"

definition append_output :: "string \<Rightarrow> app \<Rightarrow> app" where
  "append_output txt s = s\<lparr>ids_output_box_text := ids_output_box_text s @ txt @ [newline]\<rparr>"

definition hold_to_record :: string where
  "hold_to_record = [CHR 0xE2, CHR 0x8F, CHR 0xBA] @ '' Hold to Record''"

definition on_record_press :: "app \<Rightarrow> touch \<Rightarrow> app" where
  "on_record_press s t =
     (if \<not> ids_record_btn_collide_point s (pos t) then s
      else s\<lparr>ids_record_btn_text := ''Recording...'',
             ids_output_box_text := ids_output_box_text s,
             self_audio_thread := Some Record_worker,
             self_recording := True,
             started_threads := started_threads s @ [Record_worker]\<rparr>)"

definition on_record_release :: "app \<Rightarrow> touch \<Rightarrow> app" where
  "on_record_release s t =
     (if \<not> ids_record_btn_collide_point s (pos t) then s
      else s\<lparr>self_recording := False,
             ids_record_btn_text := hold_to_record,
             started_threads := started_threads s @ [Post_process_and_translate]\<rparr>)"

text \<open>
  \<^verbatim>\<open>_post_process_and_translate\<close>, after its initial pause. Whether a path exists on
  disk is the environment's answer \<open>path_exists\<close>. The wrapper is called with
  \<^verbatim>\<open>model="saaras:v2.5"\<close> and its default prompt, \<^verbatim>\<open>"casual chat"\<close>.
\<close>

definition post_process_and_translate ::
  "(string \<Rightarrow> bool) \<Rightarrow> sarvam_env \<Rightarrow> app \<Rightarrow> (thrown, sarvam_call, app) io" where
  "post_process_and_translate path_exists env s =
     (case self_wav_path s of
        None \<Rightarrow> ret (append_output ''No recorded file found.'' s)
      | Some path \<Rightarrow>
          if path = [] \<or> \<not> path_exists path
          then ret (append_output ''No recorded file found.'' s)
          else
            (let s1 = append_output ''Starting translation upload...'' s;
                 key = py_strip (ids_api_key_text s1)
             in then_io (translate_audio_with_sarvamai env path key ''saaras:v2.5'' ''casual chat'')
                  (\<lambda>(success, message).
                     if success
                     then ret (append_output message (append_output ''Translation result:'' s1))
                     else ret (append_output (''Translation failed: '' @ message) s1))))"

section \<open>Recording\<close>

subsection \<open>Sample encoding\<close>

definition struct_error :: exn where
  "struct_error = raised ''error'' ''short format requires (-32768) <= number <= 32767''"

definition IndexError :: exn where
  "IndexError = raised ''IndexError'' ''list index out of range''"

text \<open>\<^verbatim>\<open>struct.pack('<h', v)\<close>: two bytes, low byte first, two's complement.\<close>

definition struct_pack_h :: "int \<Rightarrow> exn + byte list" where
  "struct_pack_h v =
     (if - 32768 \<le> v \<and> v \<le> 32767
      then Inr [word_of_int v, word_of_int (v div 256)]
      else Inl struct_error)"

text \<open>
  The \<^verbatim>\<open>for i in range(read)\<close> loop: it reads \<^verbatim>\<open>java_buffer[i]\<close>, converts the Java
  short to a Python int and packs it.
\<close>

fun pack_loop :: "nat \<Rightarrow> nat \<Rightarrow> short list \<Rightarrow> byte list \<Rightarrow> exn + byte list" where
  "pack_loop 0 i java_buffer b = Inr b"
| "pack_loop (Suc n) i java_buffer b =
     (if i < length java_buffer
      then (case struct_pack_h (sint (java_buffer ! i)) of
              Inl e \<Rightarrow> Inl e
            | Inr bs \<Rightarrow> pack_loop n (Suc i) java_buffer (b @ bs))
      else Inl IndexError)"

text \<open>
  \<^verbatim>\<open>ndarray.tobytes()\<close> of an \<^verbatim>\<open>int16\<close> block with one channel, on a little-endian host
  (where \<^verbatim>\<open>wave\<close> writes the bytes it is given unchanged).
\<close>

definition tobytes :: "short list \<Rightarrow> byte list" where
  "tobytes block = concat (map (\<lambda>w. [ucast w, ucast (drop_bit 8 w)]) block)"

text \<open>Reading a byte sequence as little-endian signed 16-bit integers.\<close>

fun s16le_decode :: "byte list \<Rightarrow> int list" where
  "s16le_decode (lo # hi # rest) =
     (let u = uint lo + 256 * uint hi
      in (if u < 32768 then u else u - 65536) # s16le_decode rest)"
| "s16le_decode [b] = []"
| "s16le_decode [] = []"

subsection \<open>The \<^verbatim>\<open>wave\<close> module\<close>

text \<open>
  A \<^verbatim>\<open>Wave_write\<close> object: the parameters set so far, the frame bytes written so far,
  and whether it was closed. On a little-endian host \<^verbatim>\<open>writeframes\<close> appends the bytes
  it is given as they are; every Android ABI and the usual desktops are little-endian.
  Closing writes the header from the parameters.
\<close>

definition wave_open :: wave_write where
  "wave_open = \<lparr>w_nchannels = 0, w_sampwidth = 0, w_framerate = 0, w_frames = [], w_closed = False\<rparr>"

definition setnchannels :: "nat \<Rightarrow> wave_write \<Rightarrow> wave_write" where
  "setnchannels n wav = wav\<lparr>w_nchannels := n\<rparr>"

definition setsampwidth :: "nat \<Rightarrow> wave_write \<Rightarrow> wave_write" where
  "setsampwidth n wav = wav\<lparr>w_sampwidth := n\<rparr>"

definition setframerate :: "nat \<Rightarrow> wave_write \<Rightarrow> wave_write" where
  "setframerate n wav = wav\<lparr>w_framerate := n\<rparr>"

definition writeframes :: "byte list \<Rightarrow> wave_write \<Rightarrow> wave_write" where
  "writeframes b wav = wav\<lparr>w_frames := w_frames wav @ b\<rparr>"

definition wave_close :: "wave_write \<Rightarrow> wave_write" where
  "wave_close wav = wav\<lparr>w_closed := True\<rparr>"

subsection \<open>The recorder thread\<close>

text \<open>
  The external calls of the recorder thread. A \<open>Read\<close> carries the chunk size asked for
  and what \<^verbatim>\<open>ar.read\<close> gave: the count and the buffer, or an exception. A \<open>Callback\<close>
  carries the value of \<^verbatim>\<open>self.recording\<close> the callback saw and its block of samples.
\<close>

datatype audio_call =
    GetMinBufferSize nat
  | NewAudioRecord nat int
  | GetState
  | WaveOpen string
  | Setnchannels nat
  | Setsampwidth nat
  | Setframerate nat
  | NewShortArray int
  | StartRecording
  | Read int "exn + int \<times> short list"
  | Writeframes "byte list"
  | Sleep
  | Stop
  | Release
  | WaveClose
  | OpenInputStream nat nat
  | Callback bool "short list"
  | CloseInputStream

text \<open>
  What the platform answers. \<open>android\<close> and \<open>have_desktop_audio\<close> are the module's
  globals \<^verbatim>\<open>ANDROID\<close> and \<^verbatim>\<open>HAVE_DESKTOP_AUDIO\<close>. The UI thread toggles
  \<^verbatim>\<open>self.recording\<close> while the recorder thread runs, so the value the recorder reads at
  its \<open>k\<close>-th test of the loop condition is the environment's \<open>recording_at k\<close>, and
  \<open>ar_read k\<close> is what the \<open>k\<close>-th \<^verbatim>\<open>ar.read\<close> gives. \<open>callbacks\<close> are the invocations of
  the \<^verbatim>\<open>sounddevice\<close> callback while the stream is open: the flag each saw and its block.
  The calls that have no answer here (making the temporary file, the \<^verbatim>\<open>wave\<close> module,
  \<^verbatim>\<open>startRecording\<close>, \<^verbatim>\<open>time.sleep\<close>) are taken to succeed.
\<close>

record audio_env =
  android :: bool
  have_desktop_audio :: bool
  mkstemp_path :: string
  get_min_buffer_size :: int
  state_initialized :: bool
  recording_at :: "nat \<Rightarrow> bool"
  ar_read :: "nat \<Rightarrow> exn + int \<times> short list"
  stop_r :: "exn + unit"
  release_r :: "exn + unit"
  input_stream_r :: "exn + unit"
  callbacks :: "(bool \<times> short list) list"

definition init_error :: exn where
  "init_error = raised ''RuntimeError'' ''AudioRecord initialization failed (state != INITIALIZED)''"

text \<open>
  The \<^verbatim>\<open>while self.recording\<close> loop of \<^verbatim>\<open>_record_android_pcm\<close>, from its \<open>k\<close>-th round
  on: the calls made so far, and the open WAV object. It ends with the exception that
  left the loop or with \<open>Inr ()\<close>.
\<close>

partial_function (option) capture_loop ::
  "audio_env \<Rightarrow> int \<Rightarrow> nat \<Rightarrow> audio_call list \<Rightarrow> wave_write
     \<Rightarrow> (audio_call list \<times> (exn + unit) \<times> wave_write) option" where
  "capture_loop env chunk_size k tr wav =
     (if recording_at env k then
        (case ar_read env k of
           Inl e \<Rightarrow> Some (tr @ [Read chunk_size (Inl e)], Inl e, wav)
         | Inr (read, java_buffer) \<Rightarrow>
             if read > 0 then
               (case pack_loop (nat read) 0 java_buffer [] of
                  Inl e \<Rightarrow> Some (tr @ [Read chunk_size (Inr (read, java_buffer))], Inl e, wav)
                | Inr b \<Rightarrow>
                    capture_loop env chunk_size (Suc k)
                      (tr @ [Read chunk_size (Inr (read, java_buffer)), Writeframes b])
                      (writeframes b wav))
             else
               capture_loop env chunk_size (Suc k)
                 (tr @ [Read chunk_size (Inr (read, java_buffer)), Sleep]) wav)
      else Some (tr, Inr (), wav))"

declare capture_loop.simps [code]

text \<open>The \<^verbatim>\<open>finally\<close> block's inner \<^verbatim>\<open>try\<close>: stop, then release; any exception is dropped.\<close>

definition stop_and_release :: "audio_env \<Rightarrow> audio_call list" where
  "stop_and_release env =
     fst (try_except
            (then_io (call Stop (stop_r env)) (\<lambda>_. call Release (release_r env)))
            (\<lambda>e. ret ()))"

definition record_android_pcm ::
  "audio_env \<Rightarrow> app \<Rightarrow> string \<Rightarrow> nat \<Rightarrow> nat \<Rightarrow> (audio_call list \<times> (exn + unit) \<times> app) option" where
  "record_android_pcm env s out_wav_path sample_rate channels =
     (let min_buf = get_min_buffer_size env;
          min_buf = (if min_buf \<le> 0 then int sample_rate * 2 else min_buf);
          s1 = s\<lparr>self_buffer_size := min_buf\<rparr>;
          tr1 = [GetMinBufferSize sample_rate, NewAudioRecord sample_rate (self_buffer_size s1),
                 GetState]
      in if \<not> state_initialized env then Some (tr1, Inl init_error, s1)
         else
           (let wav = setframerate sample_rate (setsampwidth 2 (setnchannels channels wave_open));
                chunk_size = self_buffer_size s1 div 2;
                s2 = append_output ''Recording (Android) ... speak now'' (s1\<lparr>wav_file := Some wav\<rparr>);
                tr2 = tr1 @ [WaveOpen out_wav_path, Setnchannels channels, Setsampwidth 2,
                             Setframerate sample_rate, NewShortArray chunk_size, StartRecording]
            in case capture_loop env chunk_size 0 tr2 wav of
                 None \<Rightarrow> None
               | Some (tr3, r, wav') \<Rightarrow>
                   Some (tr3 @ stop_and_release env @ [WaveClose], r,
                         append_output (''Saved WAV to: '' @ out_wav_path)
                           (s2\<lparr>wav_file := Some (wave_close wav')\<rparr>))))"

text \<open>The callback of the desktop stream, run over the invocations the stream makes.\<close>

fun run_callbacks ::
  "(bool \<times> short list) list \<Rightarrow> short list list \<Rightarrow> audio_call list \<times> short list list" where
  "run_callbacks [] frames = ([], frames)"
| "run_callbacks ((recording, indata) # rest) frames =
     (if \<not> recording then ([Callback recording indata], frames)
      else (case run_callbacks rest (frames @ [indata]) of
              (tr, frames') \<Rightarrow> (Callback recording indata # tr, frames')))"

text \<open>
  The \<^verbatim>\<open>while self.recording: time.sleep(0.05)\<close> loop of the desktop path, from its
  \<open>k\<close>-th test on: the number of tests that found the flag set.
\<close>

partial_function (option) desktop_wait :: "audio_env \<Rightarrow> nat \<Rightarrow> nat option" where
  "desktop_wait env k = (if recording_at env k then desktop_wait env (Suc k) else Some k)"

declare desktop_wait.simps [code]

definition record_desktop :: "audio_env \<Rightarrow> app \<Rightarrow> string \<Rightarrow> (audio_call list \<times> (exn + unit) \<times> app) option" where
  "record_desktop env s path =
     (let sample_rate = 16000; channels = 1; sampwidth = 2;
          s1 = append_output ''Starting desktop capture (sounddevice). Speak now...'' s
      in case input_stream_r env of
           Inl e \<Rightarrow> Some ([OpenInputStream sample_rate channels], Inl e, s1)
         | Inr _ \<Rightarrow>
             (case desktop_wait env 0 of
                None \<Rightarrow> None
              | Some k \<Rightarrow>
                  (case run_callbacks (callbacks env) [] of
                     (tr, frames) \<Rightarrow>
                       (let data = concat (map tobytes frames);
                            wav = writeframes data
                                   (setframerate sample_rate
                                      (setsampwidth sampwidth (setnchannels channels wave_open)))
                        in Some ([OpenInputStream sample_rate channels] @ tr @ replicate k Sleep
                                   @ [CloseInputStream, WaveOpen path, Setnchannels channels,
                                      Setsampwidth sampwidth, Setframerate sample_rate,
                                      Writeframes data, WaveClose],
                                 Inr (),
                                 append_output (''Saved WAV to: '' @ path)
                                   (s1\<lparr>wav_file := Some (wave_close wav)\<rparr>))))))"

text \<open>
  \<^verbatim>\<open>_record_worker\<close>. \<^verbatim>\<open>mkstemp\<close> makes a new, empty file, so no WAV content is at the
  new path yet.
\<close>

definition record_worker :: "audio_env \<Rightarrow> app \<Rightarrow> (audio_call list \<times> app) option" where
  "record_worker env s =
     (let path = mkstemp_path env;
          s1 = s\<lparr>self_wav_path := Some path, wav_file := None\<rparr>;
          sample_rate = 16000; channels = 1
      in if android env then
           (case record_android_pcm env
                   (append_output ''Starting Android AudioRecord capture (16kHz, mono, 16-bit).'' s1)
                   path sample_rate channels of
              None \<Rightarrow> None
            | Some (tr, Inl e, s2) \<Rightarrow> Some (tr, append_output (''Android record error: '' @ exn_str e) s2)
            | Some (tr, Inr _, s2) \<Rightarrow> Some (tr, s2))
         else if \<not> have_desktop_audio env then
           Some ([], append_output
                       ''Desktop audio libs not available (sounddevice/soundfile). Cannot record.'' s1)
         else
           (case record_desktop env s1 path of
              None \<Rightarrow> None
            | Some (tr, Inl e, s2) \<Rightarrow> Some (tr, append_output (''Desktop record error: '' @ exn_str e) s2)
            | Some (tr, Inr _, s2) \<Rightarrow> Some (tr, s2)))"

subsection \<open>What a trace says\<close>

text \<open>
  The samples the recorder delivered, read off the calls: a read that gave a positive
  count within the buffer delivered that many elements of the buffer, a callback that saw
  the flag set delivered its block.
\<close>

fun delivered :: "audio_call \<Rightarrow> short list" where
  "delivered (Read chunk_size (Inr (read, java_buffer))) =
     (if read > 0 \<and> nat read \<le> length java_buffer then take (nat read) java_buffer else [])"
| "delivered (Callback recording indata) = (if recording then indata else [])"
| "delivered other = []"

definition recorded_samples :: "audio_call list \<Rightarrow> short list" where
  "recorded_samples tr = concat (map delivered tr)"

fun is_wave_call :: "audio_call \<Rightarrow> bool" where
  "is_wave_call (WaveOpen p) = True"
| "is_wave_call (Setnchannels n) = True"
| "is_wave_call (Setsampwidth n) = True"
| "is_wave_call (Setframerate n) = True"
| "is_wave_call (Writeframes b) = True"
| "is_wave_call WaveClose = True"
| "is_wave_call other = False"

fun is_read :: "audio_call \<Rightarrow> bool" where
  "is_read (Read chunk_size r) = True"
| "is_read other = False"



text \<open>
  The calls \<^verbatim>\<open>_record_android_pcm\<close> makes before its loop when the recorder
  initialises.
\<close>

definition setup_calls :: "audio_env \<Rightarrow> string \<Rightarrow> nat \<Rightarrow> nat \<Rightarrow> audio_call list" where
  "setup_calls env out_wav_path sample_rate channels =
     (let min_buf = (if get_min_buffer_size env \<le> 0 then int sample_rate * 2
                     else get_min_buffer_size env)
      in [GetMinBufferSize sample_rate, NewAudioRecord sample_rate min_buf, GetState,
          WaveOpen out_wav_path, Setnchannels channels, Setsampwidth 2, Setframerate sample_rate,
          NewShortArray (min_buf div 2), StartRecording])"

section \<open>Example runs\<close>

text \<open>
  A job that succeeds and leaves one JSON file with a transcript; the same job when the
  import fails, when the upload is refused, and when the output directory holds no text.
\<close>

definition example_files :: "out_file list" where
  "example_files =
     [\<lparr>fname = ''0.json'', read_text = Inr ''{}'',
       load_json = Inr (JObj [(''request_id'', JStr ''r1''), (''transcript'', JStr '' hello '')])\<rparr>]"

definition example_env :: sarvam_env where
  "example_env =
     \<lparr>import_r = Inr (), client_r = Inr (), create_job_r = Inr (), upload_files_r = Inr (),
      start_r = Inr (), wait_until_complete_r = Inr (), is_failed_r = Inr False,
      getcwd_r = Inr ''/app'', makedirs_r = Inr (), download_outputs_r = Inr (),
      walk_r = [(''/app/sarvamai_output'', example_files)]\<rparr>"






definition silent_files :: "out_file list" where
  "silent_files =
     [\<lparr>fname = ''NOTES.TXT'', read_text = Inr '' '', load_json = Inl TypeError\<rparr>,
      \<lparr>fname = ''0.json'', read_text = Inr ''{}'',
       load_json = Inr (JObj [(''request_id'', JStr ''r1''), (''text'', JNum 3)])\<rparr>,
      \<lparr>fname = ''1.json'', read_text = Inr ''[]'', load_json = Inr (JArr [JStr ''text''])\<rparr>,
      \<lparr>fname = ''rec.wav'', read_text = Inl TypeError, load_json = Inl TypeError\<rparr>]"

definition silent_env :: sarvam_env where
  "silent_env = example_env\<lparr>walk_r := [(''/app/sarvamai_output'', silent_files)]\<rparr>"

text \<open>A freshly built widget whose record button covers 400 by 64 pixels.\<close>

definition example_app :: app where
  "example_app =
     \<lparr>self_audio_thread = None, self_recording = False, self_wav_path = None,
      self_buffer_size = 0, ids_record_btn_text = hold_to_record,
      ids_record_btn_collide_point = (\<lambda>(x, y). 0 \<le> x \<and> x \<le> 400 \<and> 0 \<le> y \<and> y \<le> 64),
      ids_output_box_text = [], ids_api_key_text = '' key1 '', started_threads = [],
      wav_file = None\<rparr>"

text \<open>
  A recording of two samples: the flag is set at the first two tests of the loop
  condition, the first read gives the samples 1 and -2, the second gives nothing. The
  desktop stream delivers the same two samples in one block.
\<close>

definition example_audio_env :: audio_env where
  "example_audio_env =
     \<lparr>android = True, have_desktop_audio = True, mkstemp_path = ''/tmp/rec_1.wav'',
      get_min_buffer_size = 8, state_initialized = True,
      recording_at = (\<lambda>k. k < 2),
      ar_read = (\<lambda>k. if k = 0 then Inr (2, [1, - 2, 0, 0]) else Inr (0, [1, - 2, 0, 0])),
      stop_r = Inr (), release_r = Inr (), input_stream_r = Inr (),
      callbacks = [(True, [1, - 2]), (False, [7])]\<rparr>"



section \<open>Properties of the SarvamAI wrapper\<close>

subsection \<open>Sequencing and handlers\<close>

lemma then_io_call_Inl: "then_io (call ev (Inl e)) f = ([ev], Inl e)"
  by (simp add: then_io_def call_def)

lemma then_io_call_Inr: "then_io (call ev (Inr a)) f = (ev # fst (f a), snd (f a))"
  by (simp add: then_io_def call_def split: prod.splits)

lemma then_io_local_Inl: "then_io (local_step (Inl e)) f = ([], Inl e)"
  by (simp add: then_io_def local_step_def)

lemma then_io_local_Inr: "then_io (local_step (Inr a)) f = f a"
  by (simp add: then_io_def local_step_def split: prod.splits)

lemma then_io_ret: "then_io (ret a) f = f a"
  by (simp add: then_io_def ret_def split: prod.splits)

lemma try_except_Inl: "try_except (tr, Inl e) h = (tr @ fst (h e), snd (h e))"
  by (simp add: try_except_def split: prod.splits)

lemma try_except_Inr: "try_except (tr, Inr a) h = (tr, Inr a)"
  by (simp add: try_except_def)

lemma of_exception_simps:
  "of_exception (Inl e) = Inl (Exception e)"
  "of_exception (Inr a) = Inr a"
  by (simp_all add: of_exception_def)

lemmas io_simps = then_io_call_Inl then_io_call_Inr then_io_local_Inl then_io_local_Inr
  then_io_ret try_except_Inl try_except_Inr of_exception_simps

lemma translate_import_fails:
  "import_r env = Inl (Exception e) \<Longrightarrow>
   translate_audio_with_sarvamai env path key model prompt =
     ([ImportSarvamAI], Inr (False, ''sarvamai lib not available on runtime: '' @ exn_str e))"
  by (simp add: translate_audio_with_sarvamai_def then_io_def except_Exception_def call_def
      ret_def)

lemma translate_import_propagates:
  "import_r env = Inl (NotException x) \<Longrightarrow>
   translate_audio_with_sarvamai env path key model prompt =
     ([ImportSarvamAI], Inl (NotException x))"
  by (simp add: translate_audio_with_sarvamai_def then_io_def except_Exception_def call_def
      ret_def)

lemma translate_import_ok:
  "import_r env = Inr u \<Longrightarrow>
   translate_audio_with_sarvamai env path key model prompt =
     (case sarvam_flow env path key model prompt of
        (tr, Inl (Exception e)) \<Rightarrow>
          (ImportSarvamAI # tr, Inr (False, ''Translation error: '' @ exn_repr e))
      | (tr, Inl (NotException x)) \<Rightarrow> (ImportSarvamAI # tr, Inl (NotException x))
      | (tr, Inr r) \<Rightarrow> (ImportSarvamAI # tr, Inr r))"
  by (simp add: translate_audio_with_sarvamai_def call_def ret_def except_Exception_def
      then_io_def split: prod.splits sum.splits thrown.splits)

lemma translate_trace_flow:
  "import_r env = Inr u \<Longrightarrow>
   fst (translate_audio_with_sarvamai env path key model prompt) =
     ImportSarvamAI # fst (sarvam_flow env path key model prompt)"
  by (cases "sarvam_flow env path key model prompt")
     (simp add: translate_import_ok split: sum.splits thrown.splits)

lemma translate_trace_import:
  "import_r env = Inl x \<Longrightarrow>
   fst (translate_audio_with_sarvamai env path key model prompt) = [ImportSarvamAI]"
  by (cases x) (simp_all add: translate_import_fails translate_import_propagates)

subsection \<open>The calls of the flow\<close>

text \<open>
  Whatever the client answers, the calls of the flow are an initial segment of the six
  job calls followed by one download.
\<close>

lemma flow_trace:
  "\<exists>n dir. fst (sarvam_flow env path key model prompt) =
      take n (job_calls path key model prompt @ [DownloadOutputs dir])"
proof (cases "client_r env")
  case (Inl e)
  then have "fst (sarvam_flow env path key model prompt) =
      take 1 (job_calls path key model prompt @ [DownloadOutputs []])"
    by (simp add: sarvam_flow_def job_calls_def io_simps)
  then show ?thesis by blast
next
  case c1: (Inr u1)
  show ?thesis
  proof (cases "create_job_r env")
    case (Inl e)
    with c1 have "fst (sarvam_flow env path key model prompt) =
        take 2 (job_calls path key model prompt @ [DownloadOutputs []])"
      by (simp add: sarvam_flow_def job_calls_def io_simps)
    then show ?thesis by blast
  next
    case c2: (Inr u2)
    show ?thesis
    proof (cases "upload_files_r env")
      case (Inl e)
      with c1 c2 have "fst (sarvam_flow env path key model prompt) =
          take 3 (job_calls path key model prompt @ [DownloadOutputs []])"
        by (simp add: sarvam_flow_def job_calls_def io_simps)
      then show ?thesis by blast
    next
      case c3: (Inr u3)
      show ?thesis
      proof (cases "start_r env")
        case (Inl e)
        with c1 c2 c3 have "fst (sarvam_flow env path key model prompt) =
            take 4 (job_calls path key model prompt @ [DownloadOutputs []])"
          by (simp add: sarvam_flow_def job_calls_def io_simps)
        then show ?thesis by blast
      next
        case c4: (Inr u4)
        show ?thesis
        proof (cases "wait_until_complete_r env")
          case (Inl e)
          with c1 c2 c3 c4 have "fst (sarvam_flow env path key model prompt) =
              take 5 (job_calls path key model prompt @ [DownloadOutputs []])"
            by (simp add: sarvam_flow_def job_calls_def io_simps)
          then show ?thesis by blast
        next
          case c5: (Inr u5)
          show ?thesis
          proof (cases "is_failed_r env")
            case (Inl e)
            with c1 c2 c3 c4 c5 have "fst (sarvam_flow env path key model prompt) =
                take 6 (job_calls path key model prompt @ [DownloadOutputs []])"
              by (simp add: sarvam_flow_def job_calls_def io_simps)
            then show ?thesis by blast
          next
            case c6: (Inr failed)
            show ?thesis
            proof (cases "failed \<or> getcwd_r env = Inl (projl (getcwd_r env))
                            \<or> makedirs_r env = Inl (projl (makedirs_r env))")
              case True
              with c1 c2 c3 c4 c5 c6 have "fst (sarvam_flow env path key model prompt) =
                  take 6 (job_calls path key model prompt @ [DownloadOutputs []])"
                by (cases "getcwd_r env"; cases "makedirs_r env")
                   (auto simp add: sarvam_flow_def job_calls_def io_simps ret_def Let_def)
              then show ?thesis by blast
            next
              case False
              then obtain cwd u7 where c7: "\<not> failed" "getcwd_r env = Inr cwd"
                  "makedirs_r env = Inr u7"
                by (cases "getcwd_r env"; cases "makedirs_r env") auto
              with c1 c2 c3 c4 c5 c6 have "fst (sarvam_flow env path key model prompt) =
                  take 7 (job_calls path key model prompt
                            @ [DownloadOutputs (os_path_join cwd ''sarvamai_output'')])"
                by (cases "download_outputs_r env"; cases "walk_loop (walk_r env) []")
                   (auto simp add: sarvam_flow_def job_calls_def io_simps ret_def Let_def)
              then show ?thesis by blast
            qed
          qed
        qed
      qed
    qed
  qed
qed

lemma translate_trace:
  "\<exists>n dir. fst (translate_audio_with_sarvamai env path key model prompt) =
      take n (ImportSarvamAI # job_calls path key model prompt @ [DownloadOutputs dir])"
proof (cases "import_r env")
  case (Inl e)
  then have "fst (translate_audio_with_sarvamai env path key model prompt) =
      take 1 (ImportSarvamAI # job_calls path key model prompt @ [DownloadOutputs []])"
    by (simp add: translate_trace_import)
  then show ?thesis by blast
next
  case (Inr u)
  obtain n dir where "fst (sarvam_flow env path key model prompt) =
      take n (job_calls path key model prompt @ [DownloadOutputs dir])"
    using flow_trace by blast
  with translate_trace_flow [OF Inr]
  have "fst (translate_audio_with_sarvamai env path key model prompt) =
      take (Suc n) (ImportSarvamAI # job_calls path key model prompt @ [DownloadOutputs dir])"
    by simp
  then show ?thesis by blast
qed





lemma flow_without_exception:
  assumes "sarvam_flow env path key model prompt = (tr, Inr r)"
  shows "(is_failed_r env = Inr True \<and> tr = job_calls path key model prompt
            \<and> r = (False, ''STT job failed.''))
       \<or> (is_failed_r env = Inr False \<and> fst r = True \<and>
           (\<exists>cwd. getcwd_r env = Inr cwd \<and>
              tr = job_calls path key model prompt
                     @ [DownloadOutputs (os_path_join cwd ''sarvamai_output'')]))"
  using assms
  apply (simp add: sarvam_flow_def job_calls_def)
  apply (cases "client_r env"; simp add: io_simps)
  apply (cases "create_job_r env"; simp add: io_simps)
  apply (cases "upload_files_r env"; simp add: io_simps)
  apply (cases "start_r env"; simp add: io_simps)
  apply (cases "wait_until_complete_r env"; simp add: io_simps)
  apply (cases "is_failed_r env"; simp add: io_simps)
  apply (cases "getcwd_r env"; simp add: io_simps Let_def ret_def split: if_splits)
  apply (cases "makedirs_r env"; simp add: io_simps Let_def)
  apply (cases "download_outputs_r env"; simp add: io_simps Let_def)
  apply (cases "walk_loop (walk_r env) []"; simp add: io_simps Let_def ret_def split: if_splits)
   apply auto
  done

text \<open>
  Claim C2. In a call where nothing raises (the import succeeds and the flow ends with a
  value), the calls are, in this order and once each: the import, the client, create_job,
  upload_files with the one given path, start, wait_until_complete, is_failed. When the
  job reports failure the call stops there and returns \<^verbatim>\<open>(False, "STT job failed.")\<close>;
  otherwise, and only then, download_outputs follows.
\<close>

theorem job_flow_order:
  assumes "import_r env = Inr ()"
    and "sarvam_flow env path key model prompt = (tr, Inr r)"
  shows "(is_failed_r env = Inr True
            \<and> translate_audio_with_sarvamai env path key model prompt =
                ([ImportSarvamAI, NewClient key, CreateJob model False 1 prompt,
                  UploadFiles [path], Start, WaitUntilComplete, IsFailed],
                 Inr (False, ''STT job failed.'')))
       \<or> (is_failed_r env = Inr False
            \<and> (\<exists>cwd. getcwd_r env = Inr cwd
                 \<and> fst (translate_audio_with_sarvamai env path key model prompt) =
                     [ImportSarvamAI, NewClient key, CreateJob model False 1 prompt,
                      UploadFiles [path], Start, WaitUntilComplete, IsFailed,
                      DownloadOutputs (os_path_join cwd ''sarvamai_output'')]))"
  using flow_without_exception [OF assms(2)] assms
  by (auto simp add: translate_import_ok job_calls_def)

theorem job_flow_order_witness:
  "import_r example_env = Inr ()
   \<and> snd (sarvam_flow example_env ''/tmp/rec_1.wav'' ''key1'' ''saaras:v2.5'' ''casual chat'')
       = Inr (True, ''--- 0.json:transcript ---'' @ [newline] @ ''hello'')
   \<and> is_failed_r example_env = Inr False
   \<and> fst (translate_audio_with_sarvamai example_env ''/tmp/rec_1.wav'' ''key1'' ''saaras:v2.5''
             ''casual chat'')
       = [ImportSarvamAI, NewClient ''key1'', CreateJob ''saaras:v2.5'' False 1 ''casual chat'',
          UploadFiles [''/tmp/rec_1.wav''], Start, WaitUntilComplete, IsFailed,
          DownloadOutputs ''/app/sarvamai_output'']"
proof -
  have i: "import_r example_env = Inr ()"
    by (simp add: example_env_def)
  have f: "sarvam_flow example_env ''/tmp/rec_1.wav'' ''key1'' ''saaras:v2.5'' ''casual chat''
     = (job_calls ''/tmp/rec_1.wav'' ''key1'' ''saaras:v2.5'' ''casual chat''
          @ [DownloadOutputs ''/app/sarvamai_output''],
        Inr (True, ''--- 0.json:transcript ---'' @ [newline] @ ''hello''))"
    by code_simp
  have g: "getcwd_r example_env = Inr ''/app''" "is_failed_r example_env = Inr False"
    by (simp_all add: example_env_def)
  have j: "os_path_join ''/app'' ''sarvamai_output'' = ''/app/sarvamai_output''"
    by (simp add: os_path_join_def)
  show ?thesis
    using job_flow_order [OF i f] i f g j by simp
qed




text \<open>
  Claim C5. Every create_job call the wrapper makes has \<^verbatim>\<open>with_diarization=False\<close> and
  \<^verbatim>\<open>num_speakers=1\<close> (and the model and prompt it was given); and it does make that
  call once the import and the client succeed.
\<close>

theorem create_job_without_diarization:
  "(CreateJob m d n p \<in> set (fst (translate_audio_with_sarvamai env path key model prompt))
      \<longrightarrow> \<not> d \<and> n = 1 \<and> m = model \<and> p = prompt)
   \<and> (import_r env = Inr () \<and> client_r env = Inr () \<longrightarrow>
        CreateJob model False 1 prompt
          \<in> set (fst (translate_audio_with_sarvamai env path key model prompt)))"
proof -
  obtain k dir where tr: "fst (translate_audio_with_sarvamai env path key model prompt) =
      take k (ImportSarvamAI # job_calls path key model prompt @ [DownloadOutputs dir])"
    using translate_trace by blast
  have "set (take k (ImportSarvamAI # job_calls path key model prompt @ [DownloadOutputs dir]))
      \<subseteq> set (ImportSarvamAI # job_calls path key model prompt @ [DownloadOutputs dir])"
    by (rule set_take_subset)
  with tr have a: "CreateJob m d n p
        \<in> set (fst (translate_audio_with_sarvamai env path key model prompt))
      \<longrightarrow> \<not> d \<and> n = 1 \<and> m = model \<and> p = prompt"
    by (auto simp add: job_calls_def)
  have b: "import_r env = Inr () \<and> client_r env = Inr () \<longrightarrow>
        CreateJob model False 1 prompt
          \<in> set (fst (translate_audio_with_sarvamai env path key model prompt))"
  proof (intro impI, elim conjE)
    assume i: "import_r env = Inr ()" and c: "client_r env = Inr ()"
    have "CreateJob model False 1 prompt \<in> set (fst (sarvam_flow env path key model prompt))"
      using c by (cases "create_job_r env") (simp_all add: sarvam_flow_def io_simps)
    with translate_trace_flow [OF i]
    show "CreateJob model False 1 prompt
          \<in> set (fst (translate_audio_with_sarvamai env path key model prompt))"
      by simp
  qed
  from a b show ?thesis by blast
qed

theorem create_job_without_diarization_witness:
  "CreateJob ''saaras:v2.5'' False 1 ''casual chat''
     \<in> set (fst (translate_audio_with_sarvamai example_env ''/tmp/rec_1.wav'' ''key1''
                   ''saaras:v2.5'' ''casual chat''))
   \<and> import_r example_env = Inr () \<and> client_r example_env = Inr ()
   \<and> CreateJob ''saaras:v2.5'' True 1 ''casual chat''
     \<notin> set (fst (translate_audio_with_sarvamai example_env ''/tmp/rec_1.wav'' ''key1''
                   ''saaras:v2.5'' ''casual chat''))
   \<and> CreateJob ''saaras:v2.5'' False 2 ''casual chat''
     \<notin> set (fst (translate_audio_with_sarvamai example_env ''/tmp/rec_1.wav'' ''key1''
                   ''saaras:v2.5'' ''casual chat''))"
proof -
  have i: "import_r example_env = Inr () \<and> client_r example_env = Inr ()"
    by (simp add: example_env_def)
  show ?thesis
    using i
      create_job_without_diarization [of "''saaras:v2.5''" False 1 "''casual chat''" example_env
        "''/tmp/rec_1.wav''" "''key1''" "''saaras:v2.5''" "''casual chat''"]
      create_job_without_diarization [of "''saaras:v2.5''" True 1 "''casual chat''" example_env
        "''/tmp/rec_1.wav''" "''key1''" "''saaras:v2.5''" "''casual chat''"]
      create_job_without_diarization [of "''saaras:v2.5''" False 2 "''casual chat''" example_env
        "''/tmp/rec_1.wav''" "''key1''" "''saaras:v2.5''" "''casual chat''"]
    by auto
qed

subsection \<open>Outputs that carry no text\<close>

lemma json_key_step_silent:
  assumes "\<And>kvs s. j = JObj kvs \<Longrightarrow> map_of kvs k = Some (JStr s) \<Longrightarrow> py_strip s = []"
  shows "json_key_step name j k = Inr [] \<or> (\<exists>e. json_key_step name j k = Inl e)"
proof (cases j)
  case (JObj kvs)
  show ?thesis
  proof (cases "map_of kvs k")
    case None
    then have "k \<notin> fst ` set kvs" by (simp add: map_of_eq_None_iff)
    with JObj show ?thesis by (simp add: json_key_step_def)
  next
    case (Some v)
    then have "k \<in> fst ` set kvs" by (metis map_of_eq_None_iff option.distinct(1))
    with JObj Some assms show ?thesis
      by (cases v) (simp_all add: json_key_step_def)
  qed
qed (simp_all add: json_key_step_def split: bool.splits)

lemma json_key_loop_silent:
  assumes "\<And>k kvs s. k \<in> set ks \<Longrightarrow> j = JObj kvs \<Longrightarrow> map_of kvs k = Some (JStr s)
             \<Longrightarrow> py_strip s = []"
  shows "fst (json_key_loop name j ks aggregated) = aggregated"
  using assms
proof (induction ks arbitrary: aggregated)
  case Nil
  then show ?case by simp
next
  case (Cons k ks)
  have "json_key_step name j k = Inr [] \<or> (\<exists>e. json_key_step name j k = Inl e)"
    by (rule json_key_step_silent) (use Cons.prems in auto)
  moreover have "fst (json_key_loop name j ks aggregated) = aggregated"
    by (rule Cons.IH) (use Cons.prems in auto)
  ultimately show ?case by auto
qed

lemma process_file_silent:
  assumes "endswith (py_lower (fname f)) ''.txt'' \<longrightarrow> (\<exists>c. read_text f = Inr c \<and> py_strip c = [])"
    and "\<forall>kvs k s. endswith (py_lower (fname f)) ''.json'' \<and> load_json f = Inr (JObj kvs)
            \<and> k \<in> set json_keys \<and> map_of kvs k = Some (JStr s) \<longrightarrow> py_strip s = []"
  shows "process_file f aggregated = Inr aggregated"
proof (cases "endswith (py_lower (fname f)) ''.txt''")
  case True
  with assms(1) show ?thesis by (auto simp add: process_file_def)
next
  case False
  show ?thesis
  proof (cases "endswith (py_lower (fname f)) ''.json''")
    case nj: False
    with False show ?thesis by (simp add: process_file_def)
  next
    case True
    show ?thesis
    proof (cases "load_json f")
      case (Inl e)
      with False True show ?thesis by (simp add: process_file_def)
    next
      case (Inr j)
      have "fst (json_key_loop (fname f) j json_keys aggregated) = aggregated"
        by (rule json_key_loop_silent) (use assms(2) True Inr in auto)
      with False True Inr show ?thesis by (simp add: process_file_def)
    qed
  qed
qed

lemma process_files_silent:
  assumes "\<forall>f \<in> set fs.
      (endswith (py_lower (fname f)) ''.txt'' \<longrightarrow> (\<exists>c. read_text f = Inr c \<and> py_strip c = []))
     \<and> (\<forall>kvs k s. endswith (py_lower (fname f)) ''.json'' \<and> load_json f = Inr (JObj kvs)
            \<and> k \<in> set json_keys \<and> map_of kvs k = Some (JStr s) \<longrightarrow> py_strip s = [])"
  shows "process_files fs aggregated = Inr aggregated"
  using assms
proof (induction fs)
  case Nil
  show ?case by simp
next
  case (Cons f fs)
  have "process_file f aggregated = Inr aggregated"
    by (rule process_file_silent) (use Cons.prems in auto)
  moreover have "process_files fs aggregated = Inr aggregated"
    by (rule Cons.IH) (use Cons.prems in auto)
  ultimately show ?case by simp
qed

lemma walk_loop_silent:
  assumes "\<forall>(d, fs) \<in> set w. \<forall>f \<in> set fs.
      (endswith (py_lower (fname f)) ''.txt'' \<longrightarrow> (\<exists>c. read_text f = Inr c \<and> py_strip c = []))
     \<and> (\<forall>kvs k s. endswith (py_lower (fname f)) ''.json'' \<and> load_json f = Inr (JObj kvs)
            \<and> k \<in> set json_keys \<and> map_of kvs k = Some (JStr s) \<longrightarrow> py_strip s = [])"
  shows "walk_loop w aggregated = Inr aggregated"
  using assms
proof (induction w)
  case Nil
  show ?case by simp
next
  case (Cons x w)
  obtain d fs where x: "x = (d, fs)" by (cases x)
  have "process_files fs aggregated = Inr aggregated"
    by (rule process_files_silent) (use Cons.prems x in auto)
  moreover have "walk_loop w aggregated = Inr aggregated"
    by (rule Cons.IH) (use Cons.prems in auto)
  ultimately show ?case using x by simp
qed

text \<open>
  Claim C8. When every step up to the download succeeds and the job did not fail, and the
  output directory holds no \<^verbatim>\<open>.txt\<close> file with text and no \<^verbatim>\<open>.json\<close> file with a
  non-blank string under one of the four keys (a file counts as without text also when
  its content is only whitespace), the wrapper still returns \<open>True\<close>, with a message that
  only names the output directory.
\<close>

theorem success_without_text:
  assumes "import_r env = Inr ()" "client_r env = Inr ()" "create_job_r env = Inr ()"
    "upload_files_r env = Inr ()" "start_r env = Inr ()" "wait_until_complete_r env = Inr ()"
    "is_failed_r env = Inr False" "getcwd_r env = Inr cwd" "makedirs_r env = Inr ()"
    "download_outputs_r env = Inr ()"
    and "\<forall>(d, fs) \<in> set (walk_r env). \<forall>f \<in> set fs.
      (endswith (py_lower (fname f)) ''.txt'' \<longrightarrow> (\<exists>c. read_text f = Inr c \<and> py_strip c = []))
     \<and> (\<forall>kvs k s. endswith (py_lower (fname f)) ''.json'' \<and> load_json f = Inr (JObj kvs)
            \<and> k \<in> set json_keys \<and> map_of kvs k = Some (JStr s) \<longrightarrow> py_strip s = [])"
  shows "snd (translate_audio_with_sarvamai env path key model prompt) =
     Inr (True, ''Output downloaded to: '' @ os_path_join cwd ''sarvamai_output''
                  @ '' (no text/json translation found).'')"
proof -
  have w: "walk_loop (walk_r env) [] = Inr []"
    by (rule walk_loop_silent) (rule assms(11))
  have "snd (sarvam_flow env path key model prompt) =
     Inr (True, ''Output downloaded to: '' @ os_path_join cwd ''sarvamai_output''
                  @ '' (no text/json translation found).'')"
    using assms(2-10) w by (simp add: sarvam_flow_def io_simps Let_def ret_def)
  then show ?thesis
    using assms(1)
    by (cases "sarvam_flow env path key model prompt") (simp add: translate_import_ok)
qed

lemma silent_names:
  "endswith (py_lower ''NOTES.TXT'') ''.txt''"
  "\<not> endswith (py_lower ''0.json'') ''.txt''"
  "\<not> endswith (py_lower ''1.json'') ''.txt''"
  "\<not> endswith (py_lower ''rec.wav'') ''.txt''"
  "\<not> endswith (py_lower ''rec.wav'') ''.json''"
  "py_strip '' '' = []"
  by code_simp+

theorem success_without_text_witness:
  "import_r silent_env = Inr () \<and> is_failed_r silent_env = Inr False
   \<and> getcwd_r silent_env = Inr ''/app''
   \<and> map fname (concat (map snd (walk_r silent_env)))
       = [''NOTES.TXT'', ''0.json'', ''1.json'', ''rec.wav'']
   \<and> snd (translate_audio_with_sarvamai silent_env ''/tmp/rec_1.wav'' ''key1'' ''saaras:v2.5''
            ''casual chat'') =
       Inr (True, ''Output downloaded to: /app/sarvamai_output (no text/json translation found).'')"
proof -
  have h: "import_r silent_env = Inr ()" "client_r silent_env = Inr ()"
    "create_job_r silent_env = Inr ()" "upload_files_r silent_env = Inr ()"
    "start_r silent_env = Inr ()" "wait_until_complete_r silent_env = Inr ()"
    "is_failed_r silent_env = Inr False" "getcwd_r silent_env = Inr ''/app''"
    "makedirs_r silent_env = Inr ()" "download_outputs_r silent_env = Inr ()"
    by (simp_all add: silent_env_def example_env_def)
  have f: "\<forall>(d, fs) \<in> set (walk_r silent_env). \<forall>f \<in> set fs.
      (endswith (py_lower (fname f)) ''.txt'' \<longrightarrow> (\<exists>c. read_text f = Inr c \<and> py_strip c = []))
     \<and> (\<forall>kvs k s. endswith (py_lower (fname f)) ''.json'' \<and> load_json f = Inr (JObj kvs)
            \<and> k \<in> set json_keys \<and> map_of kvs k = Some (JStr s) \<longrightarrow> py_strip s = [])"
    by (auto simp add: silent_env_def silent_files_def silent_names json_keys_def)
  have j: "os_path_join ''/app'' ''sarvamai_output'' = ''/app/sarvamai_output''"
    by (simp add: os_path_join_def)
  show ?thesis
    using success_without_text [OF h f, of "''/tmp/rec_1.wav''" "''key1''" "''saaras:v2.5''"
        "''casual chat''"] h j
    by (simp add: silent_env_def silent_files_def)
qed

section \<open>Properties of the widget\<close>

text \<open>
  Claim C10. A touch that does not collide with the record button leaves the whole state
  as it was under both handlers: the recording flag, the button text, the output box and
  the list of started threads are unchanged.
\<close>

theorem touch_outside_button_ignored:
  "\<not> ids_record_btn_collide_point s (pos t) \<Longrightarrow>
   on_record_press s t = s \<and> on_record_release s t = s"
  by (simp add: on_record_press_def on_record_release_def)

theorem touch_outside_button_ignored_witness:
  "\<not> ids_record_btn_collide_point example_app (pos \<lparr>pos = (500, 20)\<rparr>)
   \<and> on_record_press example_app \<lparr>pos = (500, 20)\<rparr> = example_app
   \<and> on_record_release example_app \<lparr>pos = (500, 20)\<rparr> = example_app"
proof -
  have "\<not> ids_record_btn_collide_point example_app (pos \<lparr>pos = (500, 20)\<rparr>)"
    by (simp add: example_app_def)
  then show ?thesis
    using touch_outside_button_ignored [of example_app "\<lparr>pos = (500, 20)\<rparr>"] by blast
qed

text \<open>
  Claim C9. When \<^verbatim>\<open>self.wav_path\<close> is unset or names a path that does not exist,
  post-processing appends \<^verbatim>\<open>No recorded file found.\<close> and makes no call at all, while
  every call of the wrapper makes at least one (the import): so the wrapper was not
  called.
\<close>

theorem no_recorded_file_no_call:
  "self_wav_path s = None \<or> (\<exists>p. self_wav_path s = Some p \<and> \<not> path_exists p) \<Longrightarrow>
   post_process_and_translate path_exists env s
     = ([], Inr (append_output ''No recorded file found.'' s))
   \<and> fst (translate_audio_with_sarvamai env' path key model prompt) \<noteq> []"
proof -
  assume a: "self_wav_path s = None \<or> (\<exists>p. self_wav_path s = Some p \<and> \<not> path_exists p)"
  have "fst (translate_audio_with_sarvamai env' path key model prompt) \<noteq> []"
    by (cases "import_r env'") (simp_all add: translate_trace_import translate_trace_flow)
  with a show ?thesis
    by (auto simp add: post_process_and_translate_def ret_def)
qed

theorem no_recorded_file_no_call_witness:
  "(self_wav_path example_app = None
      \<or> (\<exists>p. self_wav_path example_app = Some p \<and> \<not> (\<lambda>p. False) p))
   \<and> post_process_and_translate (\<lambda>p. False) example_env example_app
       = ([], Inr (example_app\<lparr>ids_output_box_text := ''No recorded file found.'' @ [newline]\<rparr>))"
proof -
  have "self_wav_path example_app = None"
    by (simp add: example_app_def)
  then show ?thesis
    using no_recorded_file_no_call [of example_app "\<lambda>p. False" example_env]
    by (simp add: append_output_def example_app_def)
qed

text \<open>
  Claim C6. With a recorded file present, post-processing appends
  \<^verbatim>\<open>Starting translation upload...\<close> and then what the wrapper returned: for
  \<open>(True, message)\<close> the line \<^verbatim>\<open>Translation result:\<close> followed by the message, for
  \<open>(False, message)\<close> the line \<^verbatim>\<open>Translation failed: \<close> followed by the message.
\<close>

theorem post_process_displays_result:
  assumes "self_wav_path s = Some path" and "path \<noteq> []" and "path_exists path"
    and "translate_audio_with_sarvamai env path (py_strip (ids_api_key_text s)) ''saaras:v2.5''
           ''casual chat'' = (tr, Inr (success, message))"
  shows "\<exists>s'. post_process_and_translate path_exists env s = (tr, Inr s')
     \<and> ids_output_box_text s' =
         ids_output_box_text s @ ''Starting translation upload...'' @ [newline]
           @ (if success then ''Translation result:'' @ [newline] @ message @ [newline]
              else ''Translation failed: '' @ message @ [newline])"
  using assms
  by (simp add: post_process_and_translate_def append_output_def then_io_def ret_def Let_def)

theorem post_process_displays_result_witness:
  "self_wav_path (example_app\<lparr>self_wav_path := Some ''/tmp/rec_1.wav''\<rparr>) = Some ''/tmp/rec_1.wav''
   \<and> ''/tmp/rec_1.wav'' \<noteq> []
   \<and> fst (post_process_and_translate (\<lambda>p. True) example_env
            (example_app\<lparr>self_wav_path := Some ''/tmp/rec_1.wav''\<rparr>)) =
       [ImportSarvamAI, NewClient ''key1'', CreateJob ''saaras:v2.5'' False 1 ''casual chat'',
        UploadFiles [''/tmp/rec_1.wav''], Start, WaitUntilComplete, IsFailed,
        DownloadOutputs ''/app/sarvamai_output'']
   \<and> map_sum id ids_output_box_text
        (snd (post_process_and_translate (\<lambda>p. True) example_env
               (example_app\<lparr>self_wav_path := Some ''/tmp/rec_1.wav''\<rparr>)))
       = Inr (''Starting translation upload...'' @ [newline] @ ''Translation result:'' @ [newline]
               @ ''--- 0.json:transcript ---'' @ [newline] @ ''hello'' @ [newline])"
proof -
  have k: "py_strip (ids_api_key_text (example_app\<lparr>self_wav_path := Some ''/tmp/rec_1.wav''\<rparr>))
             = ''key1''"
    by (simp add: example_app_def py_strip_def is_space_def)
  have t: "translate_audio_with_sarvamai example_env ''/tmp/rec_1.wav''
         (py_strip (ids_api_key_text (example_app\<lparr>self_wav_path := Some ''/tmp/rec_1.wav''\<rparr>)))
         ''saaras:v2.5'' ''casual chat''
       = ([ImportSarvamAI, NewClient ''key1'', CreateJob ''saaras:v2.5'' False 1 ''casual chat'',
          UploadFiles [''/tmp/rec_1.wav''], Start, WaitUntilComplete, IsFailed,
          DownloadOutputs ''/app/sarvamai_output''],
          Inr (True, ''--- 0.json:transcript ---'' @ [newline] @ ''hello''))"
    unfolding k by code_simp
  have p: "self_wav_path (example_app\<lparr>self_wav_path := Some ''/tmp/rec_1.wav''\<rparr>)
             = Some ''/tmp/rec_1.wav''"
    by simp
  show ?thesis
    using post_process_displays_result [OF p _ _ t, of "\<lambda>p. True"]
    by (auto simp add: example_app_def)
qed

section \<open>Properties of the recorder\<close>

subsection \<open>Two bytes per sample, low byte first\<close>

lemma uint_short_bound: "0 \<le> uint (w :: short) \<and> uint w < 65536"
  using uint_bounded [of w] by simp

lemma uint_lo: "uint (ucast (w::short) :: byte) = uint w mod 256"
  by (simp add: unsigned_ucast_eq take_bit_eq_mod)

lemma uint_hi: "uint (ucast (drop_bit 8 (w::short)) :: byte) = (uint w div 256) mod 256"
  by (simp add: unsigned_ucast_eq unsigned_drop_bit_eq take_bit_eq_mod drop_bit_eq_div uint_div)

lemma uint_drop8: "uint (drop_bit 8 (w::short)) = uint w div 256"
  by (simp add: unsigned_drop_bit_eq drop_bit_eq_div uint_div)

lemma sint_short: "sint (w::short) = (if uint w < 32768 then uint w else uint w - 65536)"
proof -
  have s: "sint w = (uint w + 32768) mod 65536 - 32768"
    by (simp add: sint_uint signed_take_bit_eq_take_bit_shift take_bit_eq_mod)
  show ?thesis
  proof (cases "uint w < 32768")
    case True
    then have "(uint w + 32768) mod 65536 = uint w + 32768"
      using uint_short_bound [of w] by (simp add: mod_pos_pos_trivial)
    with s True show ?thesis by simp
  next
    case False
    have "uint w + 32768 = (uint w - 32768) + 65536"
      by simp
    then have "(uint w + 32768) mod 65536 = ((uint w - 32768) + 65536) mod 65536"
      by (simp only:)
    also have "\<dots> = (uint w - 32768) mod 65536"
      by (rule mod_add_self2)
    also have "\<dots> = uint w - 32768"
      using False uint_short_bound [of w] by (simp add: mod_pos_pos_trivial)
    finally show ?thesis using s False by simp
  qed
qed

lemma uint_hi_small: "uint (w :: short) div 256 < 256"
proof -
  have "uint w div 256 \<le> 65535 div 256"
    by (rule zdiv_mono1) (use uint_short_bound [of w] in simp_all)
  then show ?thesis by simp
qed

lemma decode_pair:
  "s16le_decode (ucast (w :: short) # ucast (drop_bit 8 w) # rest) = sint w # s16le_decode rest"
proof -
  have "0 \<le> uint w div 256"
    using uint_short_bound [of w] by (simp add: pos_imp_zdiv_nonneg_iff)
  then have "(uint w div 256) mod 256 = uint w div 256"
    using uint_hi_small [of w] by (simp add: mod_pos_pos_trivial)
  then have "uint w mod 256 + 256 * ((uint w div 256) mod 256) = uint w"
    by simp
  then have u: "uint (ucast w :: byte) + 256 * uint (ucast (drop_bit 8 w) :: byte) = uint w"
    by (simp only: uint_lo uint_drop8)
  show ?thesis
    by (simp only: s16le_decode.simps Let_def u sint_short)
qed

lemma sint_mod_256: "sint (w :: short) mod 256 = uint w mod 256"
proof (cases "uint w < 32768")
  case True
  then show ?thesis by (simp add: sint_short)
next
  case False
  have "(uint w - 65536) mod 256 = (uint w + 256 * (- 256)) mod 256"
    by simp
  also have "\<dots> = uint w mod 256"
    by (rule mod_mult_self2)
  finally show ?thesis using False by (simp add: sint_short)
qed

lemma sint_div_256: "(sint (w :: short) div 256) mod 256 = (uint w div 256) mod 256"
proof (cases "uint w < 32768")
  case True
  then show ?thesis by (simp add: sint_short)
next
  case False
  have "(uint w - 65536) div 256 = (uint w + 256 * (- 256)) div 256"
    by simp
  also have "\<dots> = - 256 + uint w div 256"
    by (rule div_mult_self2) simp
  finally have "(uint w - 65536) div 256 mod 256 = (uint w div 256 + 256 * (- 1)) mod 256"
    by simp
  also have "\<dots> = (uint w div 256) mod 256"
    by (rule mod_mult_self2)
  finally show ?thesis using False by (simp add: sint_short)
qed

lemma lo_byte: "(word_of_int (sint (w :: short)) :: byte) = ucast w"
proof -
  have "uint (word_of_int (sint w) :: byte) = sint w mod 256"
    by (simp only: uint_word_of_int) simp
  then show ?thesis
    by (simp only: word_uint_eq_iff uint_lo sint_mod_256)
qed

lemma hi_byte: "(word_of_int (sint (w :: short) div 256) :: byte) = ucast (drop_bit 8 w)"
proof -
  have "uint (word_of_int (sint w div 256) :: byte) = (sint w div 256) mod 256"
    by (simp only: uint_word_of_int) simp
  then show ?thesis
    by (simp only: word_uint_eq_iff uint_hi sint_div_256)
qed

lemma struct_pack_sint: "struct_pack_h (sint (w :: short)) = Inr (tobytes [w])"
  using sint_ge [of w] sint_lt [of w]
  by (simp add: struct_pack_h_def tobytes_def lo_byte hi_byte del: of_int_sint)

lemma tobytes_append: "tobytes (xs @ ys) = tobytes xs @ tobytes ys"
  by (simp add: tobytes_def)

lemma tobytes_Nil: "tobytes [] = []"
  by (simp add: tobytes_def)

lemma tobytes_Cons: "tobytes (w # ws) = ucast w # ucast (drop_bit 8 w) # tobytes ws"
  by (simp add: tobytes_def)

lemma length_tobytes: "length (tobytes ws) = 2 * length ws"
  by (induction ws) (simp_all add: tobytes_def)

lemma decode_tobytes: "s16le_decode (tobytes ws) = map sint ws"
proof (induction ws)
  case Nil
  show ?case by (simp add: tobytes_Nil)
next
  case (Cons w ws)
  then show ?case by (simp only: tobytes_Cons decode_pair list.map)
qed

lemma pack_loop_ok:
  "i + n \<le> length java_buffer \<Longrightarrow>
   pack_loop n i java_buffer b = Inr (b @ tobytes (take n (drop i java_buffer)))"
proof (induction n arbitrary: i b)
  case 0
  then show ?case by (simp add: tobytes_Nil)
next
  case (Suc n)
  then have "i < length java_buffer" by simp
  then have "take (Suc n) (drop i java_buffer) = java_buffer ! i # take n (drop (Suc i) java_buffer)"
    by (simp add: Cons_nth_drop_Suc [symmetric])
  with Suc show ?case
    by (simp add: struct_pack_sint tobytes_Cons tobytes_Nil)
qed

lemma pack_loop_raises:
  "length java_buffer < i + n \<Longrightarrow> i \<le> length java_buffer \<Longrightarrow>
   pack_loop n i java_buffer b = Inl IndexError"
proof (induction n arbitrary: i b)
  case 0
  then show ?case by simp
next
  case (Suc n)
  then show ?case by (auto simp add: struct_pack_sint)
qed

subsection \<open>The capture loops\<close>

lemma pack_loop_0:
  "pack_loop n 0 java_buffer [] =
     (if n \<le> length java_buffer then Inr (tobytes (take n java_buffer)) else Inl IndexError)"
  using pack_loop_ok [of 0 n java_buffer "[]"] pack_loop_raises [of java_buffer 0 n "[]"]
  by simp

lemma recorded_samples_append:
  "recorded_samples (xs @ ys) = recorded_samples xs @ recorded_samples ys"
  by (simp add: recorded_samples_def)

lemma recorded_samples_Cons:
  "recorded_samples (x # xs) = delivered x @ recorded_samples xs"
  by (simp add: recorded_samples_def)

lemma recorded_samples_Nil: "recorded_samples [] = []"
  by (simp add: recorded_samples_def)

lemma capture_loop_inv:
  assumes "capture_loop env c k tr wav = Some y"
  shows "\<exists>new. fst y = tr @ new
           \<and> snd (snd y) = wav\<lparr>w_frames := w_frames wav @ tobytes (recorded_samples new)\<rparr>
           \<and> filter is_wave_call new =
               map (\<lambda>c. Writeframes (tobytes (delivered c))) (filter (\<lambda>c. delivered c \<noteq> []) new)"
  using assms
proof (induction env c k tr wav y rule: capture_loop.raw_induct [rotated 1, consumes 1, case_names 1])
  case (1 loop env c k tr wav y)
  show ?case
  proof (cases "recording_at env k")
    case False
    with 1(2) have "y = (tr, Inr (), wav)" by simp
    then have "fst y = tr @ [] \<and> snd (snd y) = wav\<lparr>w_frames := w_frames wav @ tobytes (recorded_samples [])\<rparr>
           \<and> filter is_wave_call [] =
               map (\<lambda>c. Writeframes (tobytes (delivered c))) (filter (\<lambda>c. delivered c \<noteq> []) [])"
      by (simp add: recorded_samples_Nil tobytes_Nil)
    then show ?thesis by blast
  next
    case rec: True
    show ?thesis
    proof (cases "ar_read env k")
      case (Inl e)
      with rec 1(2) have "y = (tr @ [Read c (Inl e)], Inl e, wav)" by simp
      then have "fst y = tr @ [Read c (Inl e)]
           \<and> snd (snd y) = wav\<lparr>w_frames := w_frames wav @ tobytes (recorded_samples [Read c (Inl e)])\<rparr>
           \<and> filter is_wave_call [Read c (Inl e)] =
               map (\<lambda>c. Writeframes (tobytes (delivered c))) (filter (\<lambda>c. delivered c \<noteq> []) [Read c (Inl e)])"
        by (simp add: recorded_samples_def tobytes_Nil)
      then show ?thesis by blast
    next
      case (Inr p)
      obtain read java_buffer where p: "p = (read, java_buffer)" by (cases p)
      let ?rd = "Read c (Inr (read, java_buffer))"
      show ?thesis
      proof (cases "read > 0")
        case False
        with rec Inr p 1(2) have "loop env c (Suc k) (tr @ [?rd, Sleep]) wav = Some y" by simp
        from 1(1) [OF this] obtain new where new: "fst y = (tr @ [?rd, Sleep]) @ new"
          "snd (snd y) = wav\<lparr>w_frames := w_frames wav @ tobytes (recorded_samples new)\<rparr>"
          "filter is_wave_call new =
               map (\<lambda>c. Writeframes (tobytes (delivered c))) (filter (\<lambda>c. delivered c \<noteq> []) new)"
          by blast
        with False have "fst y = tr @ ([?rd, Sleep] @ new)
           \<and> snd (snd y) = wav\<lparr>w_frames := w_frames wav @ tobytes (recorded_samples ([?rd, Sleep] @ new))\<rparr>
           \<and> filter is_wave_call ([?rd, Sleep] @ new) =
               map (\<lambda>c. Writeframes (tobytes (delivered c))) (filter (\<lambda>c. delivered c \<noteq> []) ([?rd, Sleep] @ new))"
          by (simp add: recorded_samples_Cons)
        then show ?thesis by blast
      next
        case pos: True
        show ?thesis
        proof (cases "nat read \<le> length java_buffer")
          case False
          with rec Inr p pos 1(2) have "y = (tr @ [?rd], Inl IndexError, wav)"
            by (simp add: pack_loop_0)
          with False have "fst y = tr @ [?rd]
           \<and> snd (snd y) = wav\<lparr>w_frames := w_frames wav @ tobytes (recorded_samples [?rd])\<rparr>
           \<and> filter is_wave_call [?rd] =
               map (\<lambda>c. Writeframes (tobytes (delivered c))) (filter (\<lambda>c. delivered c \<noteq> []) [?rd])"
            by (simp add: recorded_samples_def tobytes_Nil)
          then show ?thesis by blast
        next
          case True
          let ?b = "tobytes (take (nat read) java_buffer)"
          from True rec Inr p pos 1(2)
          have "loop env c (Suc k) (tr @ [?rd, Writeframes ?b]) (writeframes ?b wav) = Some y"
            by (simp add: pack_loop_0)
          from 1(1) [OF this] obtain new where new: "fst y = (tr @ [?rd, Writeframes ?b]) @ new"
            "snd (snd y) = (writeframes ?b wav)\<lparr>w_frames := w_frames (writeframes ?b wav) @ tobytes (recorded_samples new)\<rparr>"
            "filter is_wave_call new =
               map (\<lambda>c. Writeframes (tobytes (delivered c))) (filter (\<lambda>c. delivered c \<noteq> []) new)"
            by blast
          have ne: "take (nat read) java_buffer \<noteq> []"
            using True pos by auto
          from new True pos ne have "fst y = tr @ ([?rd, Writeframes ?b] @ new)
           \<and> snd (snd y) = wav\<lparr>w_frames := w_frames wav @ tobytes (recorded_samples ([?rd, Writeframes ?b] @ new))\<rparr>
           \<and> filter is_wave_call ([?rd, Writeframes ?b] @ new) =
               map (\<lambda>c. Writeframes (tobytes (delivered c))) (filter (\<lambda>c. delivered c \<noteq> []) ([?rd, Writeframes ?b] @ new))"
            by (simp add: recorded_samples_Cons tobytes_append writeframes_def)
          then show ?thesis by blast
        qed
      qed
    qed
  qed
qed



subsection \<open>The routines around the loops\<close>

lemma stop_and_release_cases:
  "stop_and_release env = (case stop_r env of Inl e \<Rightarrow> [Stop] | Inr u \<Rightarrow> [Stop, Release])"
  by (cases "stop_r env"; cases "release_r env")
     (simp_all add: stop_and_release_def then_io_def try_except_def call_def ret_def)

lemma stop_and_release_quiet:
  "recorded_samples (stop_and_release env) = []"
  "filter is_wave_call (stop_and_release env) = []"
  "filter (\<lambda>c. delivered c \<noteq> []) (stop_and_release env) = []"
  "filter is_read (stop_and_release env) = []"
  by (simp_all add: stop_and_release_cases recorded_samples_def split: sum.splits)

lemma setup_calls_quiet:
  "recorded_samples (setup_calls env out sr ch) = []"
  "filter is_wave_call (setup_calls env out sr ch) = [WaveOpen out, Setnchannels ch, Setsampwidth 2, Setframerate sr]"
  "filter (\<lambda>c. delivered c \<noteq> []) (setup_calls env out sr ch) = []"
  "filter is_read (setup_calls env out sr ch) = []"
  by (simp_all add: setup_calls_def recorded_samples_def Let_def)

lemma record_android_pcm_initialized:
  assumes "record_android_pcm env s out sr ch = Some (tr, r, s')" and "state_initialized env"
  shows "\<exists>new. tr = setup_calls env out sr ch @ new @ stop_and_release env @ [WaveClose]
      \<and> wav_file s' = Some \<lparr>w_nchannels = ch, w_sampwidth = 2, w_framerate = sr,
                            w_frames = tobytes (recorded_samples new), w_closed = True\<rparr>
      \<and> filter is_wave_call new =
               map (\<lambda>c. Writeframes (tobytes (delivered c))) (filter (\<lambda>c. delivered c \<noteq> []) new)"
proof -
  define min_buf where "min_buf = (if get_min_buffer_size env \<le> 0 then int sr * 2 else get_min_buffer_size env)"
  define wav0 where "wav0 = setframerate sr (setsampwidth 2 (setnchannels ch wave_open))"
  obtain tr3 r3 wav' where loop: "capture_loop env (min_buf div 2) 0 (setup_calls env out sr ch) wav0 = Some (tr3, r3, wav')"
    and tr: "tr = tr3 @ stop_and_release env @ [WaveClose]"
    and w: "wav_file s' = Some (wave_close wav')"
    using assms
    by (auto simp add: record_android_pcm_def Let_def setup_calls_def min_buf_def wav0_def append_output_def
        split: option.splits prod.splits)
  from capture_loop_inv [OF loop] obtain new where new: "tr3 = setup_calls env out sr ch @ new"
    "wav' = wav0\<lparr>w_frames := w_frames wav0 @ tobytes (recorded_samples new)\<rparr>"
    "filter is_wave_call new =
               map (\<lambda>c. Writeframes (tobytes (delivered c))) (filter (\<lambda>c. delivered c \<noteq> []) new)"
    by auto
  from new(2) w have "wav_file s' = Some \<lparr>w_nchannels = ch, w_sampwidth = 2, w_framerate = sr,
                            w_frames = tobytes (recorded_samples new), w_closed = True\<rparr>"
    by (simp add: wav0_def wave_close_def wave_open_def setnchannels_def setsampwidth_def setframerate_def)
  with tr new(1,3) show ?thesis by auto
qed

lemma record_android_pcm_uninitialized:
  assumes "record_android_pcm env s out sr ch = Some (tr, r, s')" and "\<not> state_initialized env"
  shows "wav_file s' = wav_file s"
  using assms by (auto simp add: record_android_pcm_def Let_def)

lemma run_callbacks_frames:
  "run_callbacks cbs frames = (tr, frames') \<Longrightarrow> concat frames' = concat frames @ recorded_samples tr"
proof (induction cbs arbitrary: frames tr frames')
  case Nil
  then show ?case by (simp add: recorded_samples_def)
next
  case (Cons cb cbs)
  obtain recording indata where cb: "cb = (recording, indata)" by (cases cb)
  show ?case
  proof (cases recording)
    case False
    with Cons.prems cb show ?thesis by (auto simp add: recorded_samples_def)
  next
    case True
    obtain tr1 frames1 where r: "run_callbacks cbs (frames @ [indata]) = (tr1, frames1)"
      by (cases "run_callbacks cbs (frames @ [indata])")
    from Cons.IH [OF r] True Cons.prems cb r show ?thesis
      by (auto simp add: recorded_samples_Cons)
  qed
qed

lemma tobytes_concat: "concat (map tobytes frames) = tobytes (concat frames)"
  by (induction frames) (simp_all add: tobytes_Nil tobytes_append)

lemma recorded_samples_replicate_Sleep: "recorded_samples (replicate k Sleep) = []"
  by (induction k) (simp_all add: recorded_samples_def)

lemma record_desktop_result:
  assumes "record_desktop env s path = Some (tr, r, s')"
  shows "(wav_file s' = wav_file s) \<or>
         wav_file s' = Some \<lparr>w_nchannels = 1, w_sampwidth = 2, w_framerate = 16000,
                            w_frames = tobytes (recorded_samples tr), w_closed = True\<rparr>"
proof (cases "input_stream_r env")
  case (Inl e)
  with assms show ?thesis
    by (auto simp add: record_desktop_def Let_def append_output_def)
next
  case (Inr u)
  obtain cs frames where cb: "run_callbacks (callbacks env) [] = (cs, frames)"
    by (cases "run_callbacks (callbacks env) []")
  from run_callbacks_frames [OF cb] have f: "concat frames = recorded_samples cs" by simp
  from assms Inr cb obtain k where
    tr: "tr = [OpenInputStream 16000 1] @ cs @ replicate k Sleep
                @ [CloseInputStream, WaveOpen path, Setnchannels 1, Setsampwidth 2, Setframerate 16000,
                   Writeframes (concat (map tobytes frames)), WaveClose]"
    and w: "wav_file s' = Some (wave_close (writeframes (concat (map tobytes frames))
                                   (setframerate 16000 (setsampwidth 2 (setnchannels 1 wave_open)))))"
    by (auto simp add: record_desktop_def Let_def append_output_def split: option.splits)
  from tr have "recorded_samples tr = recorded_samples cs"
    by (simp add: recorded_samples_append recorded_samples_Cons recorded_samples_Nil
        recorded_samples_replicate_Sleep)
  with w f show ?thesis
    by (simp add: tobytes_concat wave_close_def writeframes_def wave_open_def setnchannels_def
        setsampwidth_def setframerate_def)
qed

subsection \<open>The example recording\<close>

lemma example_bytes: "tobytes [1, - 2] = [1, 0, 254, 255]"
  by code_simp

lemma example_decode: "s16le_decode [1, 0, 254, 255] = [1, - 2]"
  by code_simp

lemma android_example_run:
  "record_android_pcm (example_audio_env\<lparr>stop_r := x\<rparr>) s ''/tmp/rec_1.wav'' 16000 1 =
     Some ([GetMinBufferSize 16000, NewAudioRecord 16000 8, GetState, WaveOpen ''/tmp/rec_1.wav'',
            Setnchannels 1, Setsampwidth 2, Setframerate 16000, NewShortArray 4, StartRecording,
            Read 4 (Inr (2, [1, - 2, 0, 0])), Writeframes [1, 0, 254, 255],
            Read 4 (Inr (0, [1, - 2, 0, 0])), Sleep]
           @ (case x of Inl e \<Rightarrow> [Stop] | Inr u \<Rightarrow> [Stop, Release]) @ [WaveClose],
           Inr (),
           append_output ''Saved WAV to: /tmp/rec_1.wav''
             (append_output ''Recording (Android) ... speak now''
                (s\<lparr>self_buffer_size := 8,
                   wav_file := Some \<lparr>w_nchannels = 1, w_sampwidth = 2, w_framerate = 16000,
                                     w_frames = [1, 0, 254, 255], w_closed = True\<rparr>\<rparr>)))"
  by (simp add: record_android_pcm_def example_audio_env_def Let_def capture_loop.simps
      stop_and_release_cases append_output_def wave_open_def setnchannels_def setsampwidth_def
      setframerate_def writeframes_def wave_close_def pack_loop_0 example_bytes)

lemma example_env_stop: "example_audio_env = example_audio_env\<lparr>stop_r := Inr ()\<rparr>"
  by (simp add: example_audio_env_def)

lemma desktop_example_run:
  "record_desktop (example_audio_env\<lparr>android := False\<rparr>) s ''/tmp/rec_1.wav'' =
     Some ([OpenInputStream 16000 1, Callback True [1, - 2], Callback False [7], Sleep, Sleep,
            CloseInputStream, WaveOpen ''/tmp/rec_1.wav'', Setnchannels 1, Setsampwidth 2,
            Setframerate 16000, Writeframes [1, 0, 254, 255], WaveClose],
           Inr (),
           append_output ''Saved WAV to: /tmp/rec_1.wav''
             (append_output ''Starting desktop capture (sounddevice). Speak now...''
                s\<lparr>wav_file := Some \<lparr>w_nchannels = 1, w_sampwidth = 2, w_framerate = 16000,
                                   w_frames = [1, 0, 254, 255], w_closed = True\<rparr>\<rparr>))"
  by (simp add: record_desktop_def example_audio_env_def Let_def desktop_wait.simps
      append_output_def wave_open_def setnchannels_def setsampwidth_def
      setframerate_def writeframes_def wave_close_def example_bytes numeral_2_eq_2)

subsection \<open>The claims about recording\<close>

text \<open>
  Claim C1. Whenever the recorder thread ends and has written a WAV file, on the Android
  path and on the desktop path, the file has 1 channel, a frame rate of 16000 Hz and a
  sample width of 2 bytes, it holds two bytes for each sample the recorder delivered, and
  reading its data as little-endian signed 16-bit integers gives back those samples.
\<close>

theorem wav_format_of_written_file:
  assumes "record_worker env s = Some (tr, s')" and "wav_file s' = Some w"
  shows "w_nchannels w = 1 \<and> w_framerate w = 16000 \<and> w_sampwidth w = 2 \<and> w_closed w
       \<and> length (w_frames w) = 2 * length (recorded_samples tr)
       \<and> s16le_decode (w_frames w) = map sint (recorded_samples tr)"
proof -
  define s1 where "s1 = s\<lparr>self_wav_path := Some (mkstemp_path env), wav_file := None\<rparr>"
  have "w = \<lparr>w_nchannels = 1, w_sampwidth = 2, w_framerate = 16000,
             w_frames = tobytes (recorded_samples tr), w_closed = True\<rparr>"
  proof (cases "android env")
    case True
    define s2 where "s2 = append_output ''Starting Android AudioRecord capture (16kHz, mono, 16-bit).'' s1"
    from assms(1) True obtain r s3 where
      a: "record_android_pcm env s2 (mkstemp_path env) 16000 1 = Some (tr, r, s3)"
      and s': "wav_file s' = wav_file s3"
      by (auto simp add: record_worker_def Let_def s1_def s2_def append_output_def
          split: option.splits prod.splits sum.splits)
    show ?thesis
    proof (cases "state_initialized env")
      case False
      from record_android_pcm_uninitialized [OF a False] have "wav_file s3 = None"
        by (simp add: s2_def s1_def append_output_def)
      with s' assms(2) show ?thesis by simp
    next
      case init: True
      from record_android_pcm_initialized [OF a init] obtain new where
        tr: "tr = setup_calls env (mkstemp_path env) 16000 1 @ new @ stop_and_release env @ [WaveClose]"
        and w3: "wav_file s3 = Some \<lparr>w_nchannels = 1, w_sampwidth = 2, w_framerate = 16000,
                            w_frames = tobytes (recorded_samples new), w_closed = True\<rparr>"
        by blast
      from tr have "recorded_samples tr = recorded_samples new"
        by (simp add: recorded_samples_append setup_calls_quiet stop_and_release_quiet
            recorded_samples_Cons recorded_samples_Nil)
      with w3 s' assms(2) show ?thesis by simp
    qed
  next
    case False
    show ?thesis
    proof (cases "have_desktop_audio env")
      case nd: False
      with False assms(1) have "wav_file s' = None"
        by (auto simp add: record_worker_def Let_def append_output_def)
      with assms(2) show ?thesis by simp
    next
      case True
      with False assms(1) obtain r s3 where
        d: "record_desktop env s1 (mkstemp_path env) = Some (tr, r, s3)"
        and s': "wav_file s' = wav_file s3"
        by (auto simp add: record_worker_def Let_def s1_def append_output_def
            split: option.splits prod.splits sum.splits)
      from record_desktop_result [OF d] s' assms(2) show ?thesis
        by (auto simp add: s1_def)
    qed
  qed
  then show ?thesis
    by (simp add: length_tobytes decode_tobytes)
qed

theorem wav_format_of_written_file_witness:
  "(\<exists>tr s' w. record_worker example_audio_env example_app = Some (tr, s')
       \<and> wav_file s' = Some w \<and> w_nchannels w = 1 \<and> w_framerate w = 16000 \<and> w_sampwidth w = 2
       \<and> recorded_samples tr = [1, - 2] \<and> w_frames w = [1, 0, 254, 255]
       \<and> s16le_decode (w_frames w) = [1, - 2])
   \<and> (\<exists>tr s' w. record_worker (example_audio_env\<lparr>android := False\<rparr>) example_app = Some (tr, s')
       \<and> wav_file s' = Some w \<and> w_nchannels w = 1 \<and> w_framerate w = 16000 \<and> w_sampwidth w = 2
       \<and> recorded_samples tr = [1, - 2] \<and> w_frames w = [1, 0, 254, 255]
       \<and> s16le_decode (w_frames w) = [1, - 2])"
proof -
  obtain tr s' where a: "record_worker example_audio_env example_app = Some (tr, s')"
    and aw: "wav_file s' = Some \<lparr>w_nchannels = 1, w_sampwidth = 2, w_framerate = 16000,
                                     w_frames = [1, 0, 254, 255], w_closed = True\<rparr>"
    and at: "recorded_samples tr = [1, - 2]"
    using android_example_run [of "Inr ()"]
    by (simp add: record_worker_def Let_def example_env_stop [symmetric] append_output_def
        recorded_samples_def) (simp add: example_audio_env_def)
  obtain tr2 s2 where d: "record_worker (example_audio_env\<lparr>android := False\<rparr>) example_app = Some (tr2, s2)"
    and dw: "wav_file s2 = Some \<lparr>w_nchannels = 1, w_sampwidth = 2, w_framerate = 16000,
                                     w_frames = [1, 0, 254, 255], w_closed = True\<rparr>"
    and dt: "recorded_samples tr2 = [1, - 2]"
    using desktop_example_run
    by (simp add: record_worker_def Let_def append_output_def recorded_samples_def)
       (simp add: example_audio_env_def)
  from wav_format_of_written_file [OF a aw] wav_format_of_written_file [OF d dw] a aw at d dw dt show ?thesis
    by (simp add: example_decode)
qed




text \<open>
  Claim C7, as stated, fails: the routine does not lay out the container itself. In the
  example recording it opens, parameterises and closes the file through the \<^verbatim>\<open>wave\<close>
  module, and the only bytes it builds are the four bytes of the two samples.
\<close>

theorem android_capture_calls_wave:
  "map_option (filter is_wave_call \<circ> fst)
     (record_android_pcm example_audio_env example_app ''/tmp/rec_1.wav'' 16000 1) =
   Some [WaveOpen ''/tmp/rec_1.wav'', Setnchannels 1, Setsampwidth 2, Setframerate 16000,
         Writeframes [1, 0, 254, 255], WaveClose]"
  using android_example_run [of "Inr ()" example_app]
  by (simp add: example_env_stop [symmetric])

text \<open>
  Claim C7, amended. The Android routine packs each delivered sample by hand and hands
  the bytes to the \<^verbatim>\<open>wave\<close> module, which builds the container: its calls on the file
  are \<^verbatim>\<open>wave.open\<close>, the three parameter setters, one \<^verbatim>\<open>writeframes\<close> per read that
  delivered samples, carrying exactly the packed samples of that read, and the close.
\<close>

theorem wave_library_builds_container:
  assumes "record_android_pcm env s out_wav_path sample_rate channels = Some (tr, r, s')"
    and "state_initialized env"
  shows "filter is_wave_call tr =
           [WaveOpen out_wav_path, Setnchannels channels, Setsampwidth 2, Setframerate sample_rate]
           @ map (\<lambda>c. Writeframes (tobytes (delivered c))) (filter (\<lambda>c. delivered c \<noteq> []) tr)
           @ [WaveClose]"
proof -
  from record_android_pcm_initialized [OF assms] obtain new where
    tr: "tr = setup_calls env out_wav_path sample_rate channels @ new @ stop_and_release env @ [WaveClose]"
    and f: "filter is_wave_call new =
               map (\<lambda>c. Writeframes (tobytes (delivered c))) (filter (\<lambda>c. delivered c \<noteq> []) new)"
    by blast
  show ?thesis
    unfolding tr by (simp add: setup_calls_quiet stop_and_release_quiet f)
qed

theorem wave_library_builds_container_witness:
  "state_initialized example_audio_env
   \<and> (\<exists>tr r s'. record_android_pcm example_audio_env example_app ''/tmp/rec_1.wav'' 16000 1
                   = Some (tr, r, s')
        \<and> filter is_wave_call tr =
            [WaveOpen ''/tmp/rec_1.wav'', Setnchannels 1, Setsampwidth 2, Setframerate 16000,
             Writeframes (tobytes [1, - 2]), WaveClose])"
proof -
  have i: "state_initialized example_audio_env"
    by (simp add: example_audio_env_def)
  obtain tr r s' where
    run: "record_android_pcm example_audio_env example_app ''/tmp/rec_1.wav'' 16000 1 = Some (tr, r, s')"
    and d: "filter (\<lambda>c. delivered c \<noteq> []) tr = [Read 4 (Inr (2, [1, - 2, 0, 0]))]"
    using android_example_run [of "Inr ()" example_app]
    by (simp add: example_env_stop [symmetric])
  from wave_library_builds_container [OF run i] run d i show ?thesis
    by simp
qed

end
